theory Spec2Isabelle
  imports Main "HOL-Library.AList"
begin

section \<open>Sections, headers and footers of a document (docx/section.py)\<close>

text \<open>
  The module works on two shared, mutable collaborators: the document tree, whose
  \<open>w:sectPr\<close> elements carry the header and footer references, and the document part,
  which stores the header parts by relationship id. Both are fields of one state record
  that every method receives and returns. A proxy object (\<open>Section\<close>, \<open>_Header\<close>,
  \<open>_Footer\<close>) holds a reference to a \<open>w:sectPr\<close> element; an element is identified by its
  position in document order, since no method of the module inserts or removes a section.
  An exception leaves the mutations made before it in place, so a method returns
  the result (or the error) together with the state.
\<close>

subsection \<open>Data\<close>

datatype error = IndexError | ValueError | KeyError | AttributeError | NotImplementedError

datatype WD_HEADER_FOOTER = PRIMARY | FIRST_PAGE | EVEN_PAGE

type_synonym rId = nat

datatype header_part = HeaderPart (element: "string list")

record sectPr =
  headerReferences :: "(WD_HEADER_FOOTER \<times> rId) list"
  footerReferences :: "(WD_HEADER_FOOTER \<times> rId) list"

datatype part_call = AddHeaderPart | GetHeaderPart rId | DropHeaderPart rId

record doc_state =
  sectPrs :: "sectPr list"
  related_parts :: "(rId \<times> header_part) list"
  part_calls :: "part_call list"

type_synonym 'a result = "(error + 'a) \<times> doc_state"

subsection \<open>The section-properties element (collaborator)\<close>

text \<open>
  The class of the \<open>w:sectPr\<close> element is not part of docx/section.py; its methods are
  written from the interface the specification gives for the section-properties
  collaborator. The references of an element are kept per selector; the module only
  ever passes \<open>PRIMARY\<close>.
\<close>

text \<open>Modelled from the spec: \<open>sectPr_lst\<close> of the document element, the \<open>w:sectPr\<close>
  elements in document order (the sequence never reorders them).\<close>

definition sectPr_lst :: "doc_state \<Rightarrow> nat list" where
  "sectPr_lst d = [0..<length (sectPrs d)]"

text \<open>Modelled from the spec: \<open>get_headerReference\<close> of the element, the lookup
  \<open>get_reference(selector)\<close> giving the reference id or none.\<close>

definition get_headerReference :: "doc_state \<Rightarrow> nat \<Rightarrow> WD_HEADER_FOOTER \<Rightarrow> rId option" where
  "get_headerReference d s t = map_of (headerReferences (sectPrs d ! s)) t"

text \<open>Modelled from the spec: \<open>get_footerReference\<close> of the element, the same lookup
  for footer references.\<close>

definition get_footerReference :: "doc_state \<Rightarrow> nat \<Rightarrow> WD_HEADER_FOOTER \<Rightarrow> rId option" where
  "get_footerReference d s t = map_of (footerReferences (sectPrs d ! s)) t"

text \<open>Modelled from the spec: \<open>add_headerReference\<close> of the element,
  \<open>add_reference(selector, id)\<close>, which records the id for the selector.\<close>

definition add_headerReference :: "doc_state \<Rightarrow> nat \<Rightarrow> WD_HEADER_FOOTER \<Rightarrow> rId \<Rightarrow> doc_state" where
  "add_headerReference d s t r =
     d\<lparr>sectPrs := (sectPrs d)[s := (sectPrs d ! s)
          \<lparr>headerReferences := AList.update t r (headerReferences (sectPrs d ! s))\<rparr>]\<rparr>"

text \<open>Modelled from the spec: \<open>remove_headerReference\<close> of the element,
  \<open>remove_reference(selector)\<close>, which removes the reference and returns the removed id.
  With no reference for the selector there is no id to return: that is an error and the
  element is left as it was.\<close>

definition remove_headerReference :: "doc_state \<Rightarrow> nat \<Rightarrow> WD_HEADER_FOOTER \<Rightarrow> rId result" where
  "remove_headerReference d s t =
     (case get_headerReference d s t of
        None \<Rightarrow> (Inl AttributeError, d)
      | Some r \<Rightarrow>
          (Inr r, d\<lparr>sectPrs := (sectPrs d)[s := (sectPrs d ! s)
             \<lparr>headerReferences := AList.delete t (headerReferences (sectPrs d ! s))\<rparr>]\<rparr>))"

text \<open>Modelled from the spec: \<open>preceding_sectPr\<close> of the element, \<open>preceding()\<close>, the
  document-order predecessor or none for the first section.\<close>

definition preceding_sectPr :: "nat \<Rightarrow> nat option" where
  "preceding_sectPr s = (if s = 0 then None else Some (s - 1))"

subsection \<open>The document part (collaborator)\<close>

text \<open>
  The document part is not part of docx/section.py either; its three header-part
  methods are written from the interface the specification gives for the part store.
  Each call is appended to \<open>part_calls\<close>, so that the calls a method makes can be counted.
\<close>

text \<open>Modelled from the spec: the reference id that \<open>add_header_part\<close> mints is fresh,
  that is, not the id of any part in the store; here the successor of the largest id.\<close>

definition next_rId :: "(rId \<times> header_part) list \<Rightarrow> rId" where
  "next_rId rels = Suc (foldr max (map fst rels) 0)"

text \<open>Modelled from the spec: the part that \<open>add_header_part\<close> creates is new and empty.\<close>

definition new_header_part :: header_part where
  "new_header_part = HeaderPart []"

text \<open>Modelled from the spec: \<open>add_header_part\<close> of the document part, which creates a
  new header part and returns it with a freshly minted reference id.\<close>

definition add_header_part :: "doc_state \<Rightarrow> (header_part \<times> rId) result" where
  "add_header_part d =
     (let r = next_rId (related_parts d) in
      (Inr (new_header_part, r),
       d\<lparr>related_parts := AList.update r new_header_part (related_parts d),
         part_calls := part_calls d @ [AddHeaderPart]\<rparr>))"

text \<open>Modelled from the spec: \<open>header_part\<close> of the document part, which returns the part
  stored under a reference id; an id with no matching part is an error of the store.\<close>

definition header_part :: "doc_state \<Rightarrow> rId \<Rightarrow> header_part result" where
  "header_part d r =
     ((case map_of (related_parts d) r of None \<Rightarrow> Inl KeyError | Some p \<Rightarrow> Inr p),
      d\<lparr>part_calls := part_calls d @ [GetHeaderPart r]\<rparr>)"

text \<open>Modelled from the spec: \<open>drop_header_part\<close> of the document part, which discards
  the part of a reference id; an id with no matching part is an error of the store.\<close>

definition drop_header_part :: "doc_state \<Rightarrow> rId \<Rightarrow> unit result" where
  "drop_header_part d r =
     ((case map_of (related_parts d) r of None \<Rightarrow> Inl KeyError | Some p \<Rightarrow> Inr ()),
      d\<lparr>related_parts := AList.delete r (related_parts d),
        part_calls := part_calls d @ [DropHeaderPart r]\<rparr>)"

subsection \<open>Python sequences\<close>

text \<open>
  \<open>xs[key]\<close> on a Python list: a negative index counts from the end, an index outside
  the list raises IndexError, and a slice is clamped to the list and never raises
  (a zero step apart, which is a ValueError).
\<close>

datatype key = Index int | Slice "int option" "int option" "int option"

definition list_getitem :: "'a list \<Rightarrow> int \<Rightarrow> error + 'a" where
  "list_getitem xs i =
     (let n = int (length xs); j = (if i < 0 then i + n else i)
      in if 0 \<le> j \<and> j < n then Inr (xs ! nat j) else Inl IndexError)"

definition slice_indices :: "int option \<Rightarrow> int option \<Rightarrow> int option \<Rightarrow> int \<Rightarrow> error + (int \<times> int \<times> int)" where
  "slice_indices start stop step n =
     (let st = (case step of None \<Rightarrow> 1 | Some k \<Rightarrow> k) in
      if st = 0 then Inl ValueError
      else
        let lower = (if st < 0 then - 1 else 0);
            upper = (if st < 0 then n - 1 else n);
            a = (case start of
                   None \<Rightarrow> (if st < 0 then upper else lower)
                 | Some i \<Rightarrow> (if i < 0 then max (i + n) lower else min i upper));
            b = (case stop of
                   None \<Rightarrow> (if st < 0 then lower else upper)
                 | Some i \<Rightarrow> (if i < 0 then max (i + n) lower else min i upper))
        in Inr (a, b, st))"

definition range_list :: "int \<Rightarrow> int \<Rightarrow> int \<Rightarrow> int list" where
  "range_list a b st =
     (let cnt = (if 0 < st then (b - a + st - 1) div st else (a - b - st - 1) div (- st))
      in map (\<lambda>k. a + int k * st) [0..<nat cnt])"

definition list_getslice :: "'a list \<Rightarrow> int option \<Rightarrow> int option \<Rightarrow> int option \<Rightarrow> error + 'a list" where
  "list_getslice xs start stop step =
     (case slice_indices start stop step (int (length xs)) of
        Inl e \<Rightarrow> Inl e
      | Inr (a, b, st) \<Rightarrow> Inr (map (\<lambda>j. xs ! nat j) (range_list a b st)))"

subsection \<open>Sections and Section\<close>

datatype Section = Section (sectPr_of: nat)

datatype getitem_result = One Section | Many "Section list"

definition Sections_getitem :: "doc_state \<Rightarrow> key \<Rightarrow> error + getitem_result" where
  "Sections_getitem d k =
     (case k of
        Slice start stop step \<Rightarrow>
          (case list_getslice (sectPr_lst d) start stop step of
             Inl e \<Rightarrow> Inl e
           | Inr refs \<Rightarrow> Inr (Many (map Section refs)))
      | Index i \<Rightarrow>
          (case list_getitem (sectPr_lst d) i of
             Inl e \<Rightarrow> Inl e
           | Inr ref \<Rightarrow> Inr (One (Section ref))))"

definition Sections_iter :: "doc_state \<Rightarrow> Section list" where
  "Sections_iter d = map Section (sectPr_lst d)"

definition Sections_len :: "doc_state \<Rightarrow> nat" where
  "Sections_len d = length (sectPr_lst d)"

subsection \<open>Header and footer proxies\<close>

text \<open>
  A proxy is its class and the \<open>w:sectPr\<close> element it was built on. \<open>_Header\<close> and
  \<open>_Footer\<close> derive from \<open>_BaseHeaderFooter\<close>; a property that a class does not define
  is looked up in the base class.
\<close>

datatype hf_class = BaseHeaderFooterCls | FooterCls | HeaderCls

definition Section_footer :: "Section \<Rightarrow> hf_class \<times> nat" where
  "Section_footer sec = (FooterCls, sectPr_of sec)"

definition Section_header :: "Section \<Rightarrow> hf_class \<times> nat" where
  "Section_header sec = (HeaderCls, sectPr_of sec)"

definition BaseHeaderFooter_has_definition :: "doc_state \<Rightarrow> nat \<Rightarrow> bool result" where
  "BaseHeaderFooter_has_definition d s = (Inl NotImplementedError, d)"

definition Footer_has_definition :: "doc_state \<Rightarrow> nat \<Rightarrow> bool result" where
  "Footer_has_definition d s =
     (let footerReference = get_footerReference d s PRIMARY
      in (Inr (if footerReference = None then False else True), d))"

text \<open>\<open>_Footer\<close> overrides \<open>_has_definition\<close>; \<open>_Header\<close> does not and inherits it.\<close>

definition has_definition :: "hf_class \<Rightarrow> doc_state \<Rightarrow> nat \<Rightarrow> bool result" where
  "has_definition cls d s =
     (case cls of
        BaseHeaderFooterCls \<Rightarrow> BaseHeaderFooter_has_definition d s
      | FooterCls \<Rightarrow> Footer_has_definition d s
      | HeaderCls \<Rightarrow> BaseHeaderFooter_has_definition d s)"

definition BaseHeaderFooter_is_linked_to_previous :: "hf_class \<Rightarrow> doc_state \<Rightarrow> nat \<Rightarrow> bool result" where
  "BaseHeaderFooter_is_linked_to_previous cls d s =
     (case has_definition cls d s of
        (Inl e, d1) \<Rightarrow> (Inl e, d1)
      | (Inr b, d1) \<Rightarrow> (Inr (\<not> b), d1))"

definition Header_has_header_part :: "doc_state \<Rightarrow> nat \<Rightarrow> bool result" where
  "Header_has_header_part d s =
     (let headerReference = get_headerReference d s PRIMARY
      in (Inr (if headerReference = None then False else True), d))"

definition Header_is_linked_to_previous :: "doc_state \<Rightarrow> nat \<Rightarrow> bool result" where
  "Header_is_linked_to_previous d s =
     (case Header_has_header_part d s of
        (Inl e, d1) \<Rightarrow> (Inl e, d1)
      | (Inr b, d1) \<Rightarrow> (Inr (\<not> b), d1))"

text \<open>\<open>_Header\<close> overrides the getter of \<open>is_linked_to_previous\<close>; \<open>_Footer\<close> inherits it.\<close>

definition is_linked_to_previous :: "hf_class \<Rightarrow> doc_state \<Rightarrow> nat \<Rightarrow> bool result" where
  "is_linked_to_previous cls d s =
     (case cls of
        BaseHeaderFooterCls \<Rightarrow> BaseHeaderFooter_is_linked_to_previous cls d s
      | FooterCls \<Rightarrow> BaseHeaderFooter_is_linked_to_previous cls d s
      | HeaderCls \<Rightarrow> Header_is_linked_to_previous d s)"

definition Header_add_header_part :: "doc_state \<Rightarrow> nat \<Rightarrow> header_part result" where
  "Header_add_header_part d s =
     (case add_header_part d of
        (Inl e, d1) \<Rightarrow> (Inl e, d1)
      | (Inr (part, r), d1) \<Rightarrow> (Inr part, add_headerReference d1 s PRIMARY r))"

definition Header_drop_header_part :: "doc_state \<Rightarrow> nat \<Rightarrow> unit result" where
  "Header_drop_header_part d s =
     (case remove_headerReference d s PRIMARY of
        (Inl e, d1) \<Rightarrow> (Inl e, d1)
      | (Inr r, d1) \<Rightarrow> drop_header_part d1 r)"

definition Header_set_is_linked_to_previous :: "doc_state \<Rightarrow> nat \<Rightarrow> bool \<Rightarrow> unit result" where
  "Header_set_is_linked_to_previous d s v =
     (let new_state = v in
      case Header_is_linked_to_previous d s of
        (Inl e, d1) \<Rightarrow> (Inl e, d1)
      | (Inr cur, d1) \<Rightarrow>
          if new_state = cur then (Inr (), d1)
          else if new_state = True then Header_drop_header_part d1 s
          else (case Header_add_header_part d1 s of
                  (Inl e, d2) \<Rightarrow> (Inl e, d2)
                | (Inr part, d2) \<Rightarrow> (Inr (), d2)))"

definition Header_header_part :: "doc_state \<Rightarrow> nat \<Rightarrow> header_part result" where
  "Header_header_part d s =
     (case get_headerReference d s PRIMARY of
        None \<Rightarrow> (Inl AttributeError, d)
      | Some r \<Rightarrow> header_part d r)"

definition Header_prior_header :: "doc_state \<Rightarrow> nat \<Rightarrow> nat option result" where
  "Header_prior_header d s =
     (let preceding = preceding_sectPr s
      in (Inr (case preceding of None \<Rightarrow> None | Some p \<Rightarrow> Some p), d))"

function Header_get_or_add_header_part :: "doc_state \<Rightarrow> nat \<Rightarrow> header_part result" where
  "Header_get_or_add_header_part d s =
     (case Header_has_header_part d s of
        (Inl e, d1) \<Rightarrow> (Inl e, d1)
      | (Inr has, d1) \<Rightarrow>
          if has then Header_header_part d1 s
          else (case Header_prior_header d1 s of
                  (Inl e, d2) \<Rightarrow> (Inl e, d2)
                | (Inr (Some prior), d2) \<Rightarrow> Header_get_or_add_header_part d2 prior
                | (Inr None, d2) \<Rightarrow> Header_add_header_part d2 s))"
  by pat_completeness auto
termination
  by (relation "measure (\<lambda>(d, s). s)")
     (auto simp: Header_prior_header_def preceding_sectPr_def split: if_splits)

definition Header_element :: "doc_state \<Rightarrow> nat \<Rightarrow> string list result" where
  "Header_element d s =
     (case Header_get_or_add_header_part d s of
        (Inl e, d1) \<Rightarrow> (Inl e, d1)
      | (Inr part, d1) \<Rightarrow> (Inr (element part), d1))"

subsection \<open>Example documents\<close>

text \<open>
  Three sections, of which only the first defines a header (stored under reference id 1);
  three sections, of which the first and the second define one (reference ids 1 and 2);
  and a single section with no header definition.
\<close>

definition doc_ABC :: doc_state where
  "doc_ABC =
     \<lparr>sectPrs = [\<lparr>headerReferences = [(PRIMARY, 1)], footerReferences = []\<rparr>,
                 \<lparr>headerReferences = [], footerReferences = []\<rparr>,
                 \<lparr>headerReferences = [], footerReferences = []\<rparr>],
      related_parts = [(1, HeaderPart [''A''])],
      part_calls = []\<rparr>"

definition doc_AB :: doc_state where
  "doc_AB =
     \<lparr>sectPrs = [\<lparr>headerReferences = [(PRIMARY, 1)], footerReferences = []\<rparr>,
                 \<lparr>headerReferences = [(PRIMARY, 2)], footerReferences = []\<rparr>,
                 \<lparr>headerReferences = [], footerReferences = []\<rparr>],
      related_parts = [(1, HeaderPart [''A'']), (2, HeaderPart [''B''])],
      part_calls = []\<rparr>"

definition doc_single :: doc_state where
  "doc_single =
     \<lparr>sectPrs = [\<lparr>headerReferences = [], footerReferences = []\<rparr>],
      related_parts = [],
      part_calls = []\<rparr>"

section \<open>Properties\<close>

declare Header_get_or_add_header_part.simps [simp del]

subsection \<open>The collaborators\<close>

lemma foldr_max_upper: "k \<in> set ks \<Longrightarrow> k \<le> foldr max ks (0::nat)"
  by (induction ks) auto

lemma next_rId_fresh: "map_of rels (next_rId rels) = None"
proof -
  have "next_rId rels \<notin> set (map fst rels)"
    using foldr_max_upper [of "next_rId rels" "map fst rels"]
    by (auto simp: next_rId_def)
  then show ?thesis
    by (simp add: map_of_eq_None_iff)
qed

lemma get_add_headerReference:
  "s < length (sectPrs d) \<Longrightarrow> get_headerReference (add_headerReference d s t r) s t = Some r"
  by (simp add: get_headerReference_def add_headerReference_def update_conv')

subsection \<open>What each method of the header proxy computes\<close>

lemma Header_has_header_part_eq:
  "Header_has_header_part d s = (Inr (get_headerReference d s PRIMARY \<noteq> None), d)"
  by (simp add: Header_has_header_part_def)

lemma Header_is_linked_to_previous_eq:
  "Header_is_linked_to_previous d s = (Inr (get_headerReference d s PRIMARY = None), d)"
  by (simp add: Header_is_linked_to_previous_def Header_has_header_part_eq)

lemma Header_drop_header_part_eq:
  assumes "get_headerReference d s PRIMARY = Some r"
  shows "Header_drop_header_part d s =
     ((case map_of (related_parts d) r of None \<Rightarrow> Inl KeyError | Some p \<Rightarrow> Inr ()),
      d\<lparr>sectPrs := (sectPrs d)[s := (sectPrs d ! s)
            \<lparr>headerReferences := AList.delete PRIMARY (headerReferences (sectPrs d ! s))\<rparr>],
        related_parts := AList.delete r (related_parts d),
        part_calls := part_calls d @ [DropHeaderPart r]\<rparr>)"
  using assms
  by (simp add: Header_drop_header_part_def remove_headerReference_def drop_header_part_def)

lemma Header_add_header_part_eq:
  "Header_add_header_part d s =
     (Inr new_header_part,
      d\<lparr>sectPrs := (sectPrs d)[s := (sectPrs d ! s)
            \<lparr>headerReferences := AList.update PRIMARY (next_rId (related_parts d))
                 (headerReferences (sectPrs d ! s))\<rparr>],
        related_parts := AList.update (next_rId (related_parts d)) new_header_part (related_parts d),
        part_calls := part_calls d @ [AddHeaderPart]\<rparr>)"
  by (simp add: Header_add_header_part_def add_header_part_def add_headerReference_def Let_def)

lemma set_True_defined:
  assumes "get_headerReference d s PRIMARY = Some r"
  shows "Header_set_is_linked_to_previous d s True = Header_drop_header_part d s"
  using assms
  by (simp add: Header_set_is_linked_to_previous_def Header_is_linked_to_previous_eq)

lemma set_False_linked:
  assumes "get_headerReference d s PRIMARY = None"
  shows "Header_set_is_linked_to_previous d s False =
           (Inr (), snd (Header_add_header_part d s))"
  using assms
  by (simp add: Header_set_is_linked_to_previous_def Header_is_linked_to_previous_eq
      Header_add_header_part_eq)

lemma set_same_value:
  "Header_set_is_linked_to_previous d s (get_headerReference d s PRIMARY = None) = (Inr (), d)"
  by (simp add: Header_set_is_linked_to_previous_def Header_is_linked_to_previous_eq)

lemma set_True_when_linked:
  "get_headerReference d s PRIMARY = None \<Longrightarrow>
     Header_set_is_linked_to_previous d s True = (Inr (), d)"
  by (simp add: Header_set_is_linked_to_previous_def Header_is_linked_to_previous_eq)

lemma set_False_when_defined:
  "get_headerReference d s PRIMARY \<noteq> None \<Longrightarrow>
     Header_set_is_linked_to_previous d s False = (Inr (), d)"
  by (simp add: Header_set_is_linked_to_previous_def Header_is_linked_to_previous_eq)

lemma set_True_post_linked:
  assumes "s < length (sectPrs d)"
  shows "get_headerReference (snd (Header_set_is_linked_to_previous d s True)) s PRIMARY = None"
proof (cases "get_headerReference d s PRIMARY")
  case None
  then show ?thesis
    by (simp add: set_True_when_linked)
next
  case (Some r)
  then show ?thesis
    using assms
    by (simp add: set_True_defined Header_drop_header_part_eq get_headerReference_def delete_conv')
qed

lemma set_False_post_defined:
  assumes "s < length (sectPrs d)"
  shows "get_headerReference (snd (Header_set_is_linked_to_previous d s False)) s PRIMARY \<noteq> None"
proof (cases "get_headerReference d s PRIMARY")
  case None
  then show ?thesis
    using assms
    by (simp add: set_False_linked Header_add_header_part_eq get_headerReference_def update_conv')
next
  case (Some r)
  then show ?thesis
    by (simp add: set_False_when_defined)
qed

lemma get_or_add_defined:
  "get_headerReference d s PRIMARY \<noteq> None \<Longrightarrow>
     Header_get_or_add_header_part d s = Header_header_part d s"
  by (simp add: Header_get_or_add_header_part.simps [of d s] Header_has_header_part_eq)

lemma get_or_add_inherits:
  "get_headerReference d s PRIMARY = None \<Longrightarrow> preceding_sectPr s = Some p \<Longrightarrow>
     Header_get_or_add_header_part d s = Header_get_or_add_header_part d p"
  by (simp add: Header_get_or_add_header_part.simps [of d s] Header_has_header_part_eq
      Header_prior_header_def)

lemma get_or_add_first:
  "get_headerReference d s PRIMARY = None \<Longrightarrow> preceding_sectPr s = None \<Longrightarrow>
     Header_get_or_add_header_part d s = Header_add_header_part d s"
  by (simp add: Header_get_or_add_header_part.simps [of d s] Header_has_header_part_eq
      Header_prior_header_def)

lemma Footer_has_definition_eq:
  "has_definition FooterCls d s = (Inr (get_footerReference d s PRIMARY \<noteq> None), d)"
  by (simp add: has_definition_def Footer_has_definition_def)

subsection \<open>Header content resolution\<close>

text \<open>
  C1. Resolving the content of a header follows the recursive algorithm. A header
  whose section has a primary header reference resolves to that section's own header
  part: the result is what the part store returns for that reference id, the part stored
  under it. A header without a reference, on a section that has a preceding section,
  resolves to whatever the preceding section's header resolves to. So with a first
  section that defines a header and a second and third that do not, the third and the
  second both resolve to the header part of the first, the part stored under its
  reference id.
\<close>

theorem C1_header_resolution:
  "(get_headerReference d s PRIMARY = Some r \<longrightarrow>
      Header_get_or_add_header_part d s = Header_header_part d s \<and>
      Header_get_or_add_header_part d s = header_part d r \<and>
      fst (Header_get_or_add_header_part d s) =
        (case map_of (related_parts d) r of None \<Rightarrow> Inl KeyError | Some part \<Rightarrow> Inr part)) \<and>
   (get_headerReference d s' PRIMARY = None \<and> preceding_sectPr s' = Some p \<longrightarrow>
      Header_get_or_add_header_part d s' = Header_get_or_add_header_part d p) \<and>
   (get_headerReference d 0 PRIMARY = Some r0 \<and>
    get_headerReference d 1 PRIMARY = None \<and>
    get_headerReference d 2 PRIMARY = None \<longrightarrow>
      Header_get_or_add_header_part d 2 = Header_header_part d 0 \<and>
      Header_get_or_add_header_part d 1 = Header_header_part d 0 \<and>
      Header_header_part d 0 = header_part d r0 \<and>
      fst (Header_get_or_add_header_part d 2) =
        (case map_of (related_parts d) r0 of None \<Rightarrow> Inl KeyError | Some part \<Rightarrow> Inr part) \<and>
      fst (Header_get_or_add_header_part d 1) =
        (case map_of (related_parts d) r0 of None \<Rightarrow> Inl KeyError | Some part \<Rightarrow> Inr part))"
proof (intro conjI impI)
  assume ref: "get_headerReference d s PRIMARY = Some r"
  then show own: "Header_get_or_add_header_part d s = Header_header_part d s"
    by (simp add: get_or_add_defined)
  show stored: "Header_get_or_add_header_part d s = header_part d r"
    using ref own by (simp add: Header_header_part_def)
  show "fst (Header_get_or_add_header_part d s) =
          (case map_of (related_parts d) r of None \<Rightarrow> Inl KeyError | Some part \<Rightarrow> Inr part)"
    by (simp add: stored header_part_def)
next
  assume "get_headerReference d s' PRIMARY = None \<and> preceding_sectPr s' = Some p"
  then show "Header_get_or_add_header_part d s' = Header_get_or_add_header_part d p"
    by (simp add: get_or_add_inherits)
next
  assume h: "get_headerReference d 0 PRIMARY = Some r0 \<and>
    get_headerReference d 1 PRIMARY = None \<and> get_headerReference d 2 PRIMARY = None"
  have A: "Header_get_or_add_header_part d 0 = Header_header_part d 0"
    using h by (simp add: get_or_add_defined)
  have B: "Header_get_or_add_header_part d 1 = Header_get_or_add_header_part d 0"
    using h get_or_add_inherits [of d 1 0] by (simp add: preceding_sectPr_def)
  have C: "Header_get_or_add_header_part d 2 = Header_get_or_add_header_part d 1"
    using h get_or_add_inherits [of d 2 1] by (simp add: preceding_sectPr_def)
  have S: "Header_header_part d 0 = header_part d r0"
    using h by (simp add: Header_header_part_def)
  show "Header_get_or_add_header_part d 2 = Header_header_part d 0"
    using A B C by simp
  show "Header_get_or_add_header_part d 1 = Header_header_part d 0"
    using A B by simp
  show "Header_header_part d 0 = header_part d r0"
    by (rule S)
  show "fst (Header_get_or_add_header_part d 2) =
          (case map_of (related_parts d) r0 of None \<Rightarrow> Inl KeyError | Some part \<Rightarrow> Inr part)"
    using A B C S by (simp add: header_part_def)
  show "fst (Header_get_or_add_header_part d 1) =
          (case map_of (related_parts d) r0 of None \<Rightarrow> Inl KeyError | Some part \<Rightarrow> Inr part)"
    using A B S by (simp add: header_part_def)
qed

theorem C1_header_resolution_witness:
  "get_headerReference doc_AB 1 PRIMARY = Some 2 \<and>
   get_headerReference doc_AB 2 PRIMARY = None \<and>
   preceding_sectPr 2 = Some 1 \<and>
   fst (Header_get_or_add_header_part doc_AB 1) = Inr (HeaderPart [''B'']) \<and>
   Header_get_or_add_header_part doc_AB 2 = Header_get_or_add_header_part doc_AB 1 \<and>
   get_headerReference doc_ABC 0 PRIMARY = Some 1 \<and>
   get_headerReference doc_ABC 1 PRIMARY = None \<and>
   get_headerReference doc_ABC 2 PRIMARY = None \<and>
   Header_get_or_add_header_part doc_ABC 2 = header_part doc_ABC 1 \<and>
   Header_get_or_add_header_part doc_ABC 1 = header_part doc_ABC 1 \<and>
   fst (Header_get_or_add_header_part doc_ABC 2) = Inr (HeaderPart [''A'']) \<and>
   fst (Header_get_or_add_header_part doc_ABC 1) = Inr (HeaderPart [''A''])"
proof -
  have b1: "get_headerReference doc_AB 1 PRIMARY = Some 2"
    by (simp add: doc_AB_def get_headerReference_def)
  have b2: "get_headerReference doc_AB 2 PRIMARY = None"
    by (simp add: doc_AB_def get_headerReference_def)
  have pre: "preceding_sectPr 2 = Some 1"
    by (simp add: preceding_sectPr_def)
  have partB: "map_of (related_parts doc_AB) 2 = Some (HeaderPart [''B''])"
    by (simp add: doc_AB_def)
  have a0: "get_headerReference doc_ABC 0 PRIMARY = Some 1"
    by (simp add: doc_ABC_def get_headerReference_def)
  have a1: "get_headerReference doc_ABC 1 PRIMARY = None"
    by (simp add: doc_ABC_def get_headerReference_def)
  have a2: "get_headerReference doc_ABC 2 PRIMARY = None"
    by (simp add: doc_ABC_def get_headerReference_def)
  have partA: "map_of (related_parts doc_ABC) 1 = Some (HeaderPart [''A''])"
    by (simp add: doc_ABC_def)
  show ?thesis
    using C1_header_resolution [where d = doc_AB and s = 1 and r = 2 and s' = 2 and p = 1
        and ?r0.0 = 1]
      C1_header_resolution [where d = doc_ABC and s = 0 and r = 1 and s' = 2 and p = 1
        and ?r0.0 = 1]
      b1 b2 pre partB a0 a1 a2 partA
    by (simp add: Header_header_part_def header_part_def)
qed

text \<open>
  On a first section (one with no preceding section) that has no header definition,
  resolving the header content creates one new header part under a fresh reference id,
  records that id as the section's primary header reference and returns the new part.
  Afterwards \<open>_has_header_part\<close> is true and the part the section refers to is the one
  that was returned.
\<close>

lemma get_or_add_first_materializes:
  assumes "s < length (sectPrs d)"
    and "preceding_sectPr s = None"
    and "get_headerReference d s PRIMARY = None"
  shows "let r = next_rId (related_parts d);
             d' = snd (Header_get_or_add_header_part d s)
         in fst (Header_get_or_add_header_part d s) = Inr new_header_part \<and>
            map_of (related_parts d) r = None \<and>
            map_of (related_parts d') = (map_of (related_parts d))(r \<mapsto> new_header_part) \<and>
            part_calls d' = part_calls d @ [AddHeaderPart] \<and>
            get_headerReference d' s PRIMARY = Some r \<and>
            Header_has_header_part d' s = (Inr True, d') \<and>
            fst (Header_header_part d' s) = Inr new_header_part"
proof -
  define r where "r = next_rId (related_parts d)"
  define d' where "d' = snd (Header_get_or_add_header_part d s)"
  have run: "Header_get_or_add_header_part d s = Header_add_header_part d s"
    using assms by (simp add: get_or_add_first)
  have res: "fst (Header_get_or_add_header_part d s) = Inr new_header_part"
    by (simp add: run Header_add_header_part_eq)
  have fresh: "map_of (related_parts d) r = None"
    by (simp add: r_def next_rId_fresh)
  have parts: "map_of (related_parts d') = (map_of (related_parts d))(r \<mapsto> new_header_part)"
    by (simp add: d'_def r_def run Header_add_header_part_eq update_conv')
  have calls: "part_calls d' = part_calls d @ [AddHeaderPart]"
    by (simp add: d'_def run Header_add_header_part_eq)
  have ref: "get_headerReference d' s PRIMARY = Some r"
    using assms(1)
    by (simp add: d'_def r_def run Header_add_header_part_eq get_headerReference_def update_conv')
  have has: "Header_has_header_part d' s = (Inr True, d')"
    using ref by (simp add: Header_has_header_part_eq)
  have again: "fst (Header_header_part d' s) = Inr new_header_part"
    using ref parts by (simp add: Header_header_part_def header_part_def)
  show ?thesis
    using res fresh parts calls ref has again by (simp add: Let_def r_def d'_def)
qed

text \<open>
  C6. On the single section of the example document, which has no preceding section
  and no header definition, resolving the header content creates a new header part under
  reference id 1, records that reference on the section and returns the part. The
  subsequent read of \<open>_has_definition\<close> on that section's header is not true: \<open>_Header\<close>
  inherits the property from the base class and the read raises NotImplementedError,
  although the reference is there and \<open>_has_header_part\<close> is true.
\<close>

theorem C6_has_definition_raises_after_materializing:
  "preceding_sectPr 0 = None \<and>
   get_headerReference doc_single 0 PRIMARY = None \<and>
   (let d' = snd (Header_get_or_add_header_part doc_single 0)
    in fst (Header_get_or_add_header_part doc_single 0) = Inr new_header_part \<and>
       part_calls d' = [AddHeaderPart] \<and>
       get_headerReference d' 0 PRIMARY = Some 1 \<and>
       fst (Header_header_part d' 0) = Inr new_header_part \<and>
       Header_has_header_part d' 0 = (Inr True, d') \<and>
       has_definition HeaderCls d' 0 = (Inl NotImplementedError, d'))"
  using get_or_add_first_materializes [where d = doc_single and s = 0]
  by (simp add: doc_single_def get_headerReference_def preceding_sectPr_def next_rId_def Let_def
      has_definition_def BaseHeaderFooter_has_definition_def)

subsection \<open>Assigning is_linked_to_previous\<close>

text \<open>
  Assigning True to \<open>is_linked_to_previous\<close> of a header whose section has a primary
  header reference removes that reference and makes exactly one call to the part store,
  a discard of the reference id that was removed. Afterwards \<open>_has_header_part\<close> is
  false and the header reads as linked to the previous one.
\<close>

lemma set_True_drops_definition:
  assumes "s < length (sectPrs d)" and "get_headerReference d s PRIMARY = Some r"
  shows "let d' = snd (Header_set_is_linked_to_previous d s True) in
           get_headerReference d' s PRIMARY = None \<and>
           part_calls d' = part_calls d @ [DropHeaderPart r] \<and>
           Header_has_header_part d' s = (Inr False, d') \<and>
           is_linked_to_previous HeaderCls d' s = (Inr True, d')"
proof -
  define d' where "d' = snd (Header_set_is_linked_to_previous d s True)"
  have ref: "get_headerReference d' s PRIMARY = None"
    using assms
    by (simp add: d'_def set_True_defined Header_drop_header_part_eq
        get_headerReference_def delete_conv')
  have calls: "part_calls d' = part_calls d @ [DropHeaderPart r]"
    using assms by (simp add: d'_def set_True_defined Header_drop_header_part_eq)
  have "Header_has_header_part d' s = (Inr False, d')"
    using ref by (simp add: Header_has_header_part_eq)
  moreover have "is_linked_to_previous HeaderCls d' s = (Inr True, d')"
    using ref by (simp add: is_linked_to_previous_def Header_is_linked_to_previous_eq)
  ultimately show ?thesis
    using ref calls by (simp add: d'_def Let_def)
qed

text \<open>
  C2. On the first section of the example document, whose header is defined under
  reference id 1, assigning True to \<open>is_linked_to_previous\<close> removes the primary header
  reference and makes exactly one call to the part store, the discard of id 1;
  afterwards \<open>is_linked_to_previous\<close> is true. Reading \<open>_has_definition\<close> on the header
  afterwards does not give false: \<open>_Header\<close> inherits the property from the base class
  and the read raises NotImplementedError (\<open>_has_header_part\<close> is false).
\<close>

theorem C2_has_definition_raises_after_linking:
  "get_headerReference doc_ABC 0 PRIMARY = Some 1 \<and>
   (let d' = snd (Header_set_is_linked_to_previous doc_ABC 0 True)
    in get_headerReference d' 0 PRIMARY = None \<and>
       part_calls d' = [DropHeaderPart 1] \<and>
       is_linked_to_previous HeaderCls d' 0 = (Inr True, d') \<and>
       Header_has_header_part d' 0 = (Inr False, d') \<and>
       has_definition HeaderCls d' 0 = (Inl NotImplementedError, d'))"
  using set_True_drops_definition [where d = doc_ABC and s = 0 and r = 1]
  by (simp add: doc_ABC_def get_headerReference_def Let_def
      has_definition_def BaseHeaderFooter_has_definition_def)

text \<open>
  Assigning False to \<open>is_linked_to_previous\<close> of a header with no definition makes
  exactly one call to the part store, which creates a new, empty header part under a
  fresh reference id; that id becomes the section's primary header reference, and
  afterwards \<open>_has_header_part\<close> is true. When a definition already exists the
  assignment changes nothing.
\<close>

lemma set_False_adds_definition:
  assumes "s < length (sectPrs d)"
  shows "(get_headerReference d s PRIMARY = None \<longrightarrow>
           (let r = next_rId (related_parts d);
                d' = snd (Header_set_is_linked_to_previous d s False)
            in fst (Header_set_is_linked_to_previous d s False) = Inr () \<and>
               map_of (related_parts d) r = None \<and>
               map_of (related_parts d') = (map_of (related_parts d))(r \<mapsto> new_header_part) \<and>
               element new_header_part = [] \<and>
               part_calls d' = part_calls d @ [AddHeaderPart] \<and>
               get_headerReference d' s PRIMARY = Some r \<and>
               Header_has_header_part d' s = (Inr True, d'))) \<and>
         (get_headerReference d s PRIMARY \<noteq> None \<longrightarrow>
            Header_set_is_linked_to_previous d s False = (Inr (), d) \<and>
            Header_has_header_part d s = (Inr True, d))"
proof (intro conjI impI)
  assume lnk: "get_headerReference d s PRIMARY = None"
  define r where "r = next_rId (related_parts d)"
  define d' where "d' = snd (Header_set_is_linked_to_previous d s False)"
  have res: "fst (Header_set_is_linked_to_previous d s False) = Inr ()"
    using lnk by (simp add: set_False_linked)
  have fresh: "map_of (related_parts d) r = None"
    by (simp add: r_def next_rId_fresh)
  have parts: "map_of (related_parts d') = (map_of (related_parts d))(r \<mapsto> new_header_part)"
    using lnk by (simp add: d'_def r_def set_False_linked Header_add_header_part_eq update_conv')
  have empty: "element new_header_part = []"
    by (simp add: new_header_part_def)
  have calls: "part_calls d' = part_calls d @ [AddHeaderPart]"
    using lnk by (simp add: d'_def set_False_linked Header_add_header_part_eq)
  have ref: "get_headerReference d' s PRIMARY = Some r"
    using lnk assms
    by (simp add: d'_def r_def set_False_linked Header_add_header_part_eq
        get_headerReference_def update_conv')
  have "Header_has_header_part d' s = (Inr True, d')"
    using ref by (simp add: Header_has_header_part_eq)
  with res fresh parts empty calls ref
  show "let r = next_rId (related_parts d);
            d' = snd (Header_set_is_linked_to_previous d s False)
        in fst (Header_set_is_linked_to_previous d s False) = Inr () \<and>
           map_of (related_parts d) r = None \<and>
           map_of (related_parts d') = (map_of (related_parts d))(r \<mapsto> new_header_part) \<and>
           element new_header_part = [] \<and>
           part_calls d' = part_calls d @ [AddHeaderPart] \<and>
           get_headerReference d' s PRIMARY = Some r \<and>
           Header_has_header_part d' s = (Inr True, d')"
    by (simp add: Let_def r_def d'_def)
next
  assume "get_headerReference d s PRIMARY \<noteq> None"
  then show "Header_set_is_linked_to_previous d s False = (Inr (), d)"
    by (rule set_False_when_defined)
next
  assume "get_headerReference d s PRIMARY \<noteq> None"
  then show "Header_has_header_part d s = (Inr True, d)"
    by (simp add: Header_has_header_part_eq)
qed

text \<open>
  C3. On the second section of the example document, whose header has no definition,
  assigning False to \<open>is_linked_to_previous\<close> makes exactly one call to the part store,
  which creates a new, empty header part under the fresh reference id 2, and records
  that id as the section's primary header reference; on the first section, which has a
  definition, the assignment changes nothing. Reading \<open>_has_definition\<close> on either
  header afterwards does not give true: \<open>_Header\<close> inherits the property from the base
  class and the read raises NotImplementedError (\<open>_has_header_part\<close> is true).
\<close>

theorem C3_has_definition_raises_after_unlinking:
  "get_headerReference doc_ABC 1 PRIMARY = None \<and>
   map_of (related_parts doc_ABC) 2 = None \<and>
   (let d' = snd (Header_set_is_linked_to_previous doc_ABC 1 False)
    in fst (Header_set_is_linked_to_previous doc_ABC 1 False) = Inr () \<and>
       part_calls d' = [AddHeaderPart] \<and>
       map_of (related_parts d') 2 = Some (HeaderPart []) \<and>
       get_headerReference d' 1 PRIMARY = Some 2 \<and>
       Header_has_header_part d' 1 = (Inr True, d') \<and>
       has_definition HeaderCls d' 1 = (Inl NotImplementedError, d')) \<and>
   get_headerReference doc_ABC 0 PRIMARY = Some 1 \<and>
   Header_set_is_linked_to_previous doc_ABC 0 False = (Inr (), doc_ABC) \<and>
   has_definition HeaderCls doc_ABC 0 = (Inl NotImplementedError, doc_ABC)"
  using set_False_adds_definition [where d = doc_ABC and s = 1]
    set_False_adds_definition [where d = doc_ABC and s = 0]
  by (simp add: doc_ABC_def get_headerReference_def next_rId_def Let_def new_header_part_def
      has_definition_def BaseHeaderFooter_has_definition_def)

text \<open>
  C4. Assigning to \<open>is_linked_to_previous\<close> the value it already has changes nothing.
  After one assignment of True a second one leaves the state as it is (no further removal,
  no further discard), after one assignment of False a second one leaves the state as it
  is (no second part), and in any state assigning the value that a read would return
  makes no call to the part store and changes no reference.
\<close>

theorem C4_redundant_assignment_is_noop:
  assumes "s < length (sectPrs d)"
  shows "(let d1 = snd (Header_set_is_linked_to_previous d s True)
          in Header_set_is_linked_to_previous d1 s True = (Inr (), d1)) \<and>
         (let d1 = snd (Header_set_is_linked_to_previous d s False)
          in Header_set_is_linked_to_previous d1 s False = (Inr (), d1)) \<and>
         Header_set_is_linked_to_previous d s (get_headerReference d s PRIMARY = None) = (Inr (), d)"
proof -
  define d1 where "d1 = snd (Header_set_is_linked_to_previous d s True)"
  define d2 where "d2 = snd (Header_set_is_linked_to_previous d s False)"
  have "get_headerReference d1 s PRIMARY = None"
    using assms by (simp add: d1_def set_True_post_linked)
  then have a: "Header_set_is_linked_to_previous d1 s True = (Inr (), d1)"
    by (rule set_True_when_linked)
  have "get_headerReference d2 s PRIMARY \<noteq> None"
    using assms by (simp add: d2_def set_False_post_defined)
  then have b: "Header_set_is_linked_to_previous d2 s False = (Inr (), d2)"
    by (rule set_False_when_defined)
  show ?thesis
    using a b set_same_value [of d s] by (simp add: d1_def d2_def Let_def)
qed

theorem C4_redundant_assignment_is_noop_witness:
  "(0::nat) < length (sectPrs doc_ABC) \<and>
   (let d1 = snd (Header_set_is_linked_to_previous doc_ABC 0 True)
    in Header_set_is_linked_to_previous d1 0 True = (Inr (), d1)) \<and>
   (let d1 = snd (Header_set_is_linked_to_previous doc_ABC 0 False)
    in Header_set_is_linked_to_previous d1 0 False = (Inr (), d1))"
  using C4_redundant_assignment_is_noop [where d = doc_ABC and s = 0]
  by (simp add: doc_ABC_def Let_def)

subsection \<open>Reading is_linked_to_previous\<close>

text \<open>
  C5. Reading \<open>is_linked_to_previous\<close> on a header returns true exactly when the section
  has no primary header reference, and on a footer exactly when the section has no
  primary footer reference. Nothing else is consulted.
\<close>

theorem C5_linked_iff_no_reference:
  "is_linked_to_previous HeaderCls d s = (Inr (get_headerReference d s PRIMARY = None), d) \<and>
   is_linked_to_previous FooterCls d s = (Inr (get_footerReference d s PRIMARY = None), d)"
  by (simp add: is_linked_to_previous_def Header_is_linked_to_previous_eq
      BaseHeaderFooter_is_linked_to_previous_def has_definition_def Footer_has_definition_def)

text \<open>
  C10. Reading \<open>is_linked_to_previous\<close> on a header or a footer leaves the document state
  as it is: no part is created or removed and no reference changes. The same holds for
  the other reading properties of the proxies; looking up a header part calls the part
  store but changes neither the parts nor the references.
\<close>

theorem C10_reads_leave_state_unchanged:
  "snd (is_linked_to_previous HeaderCls d s) = d \<and>
   snd (is_linked_to_previous FooterCls d s) = d \<and>
   snd (has_definition cls d s) = d \<and>
   snd (Header_has_header_part d s) = d \<and>
   snd (Header_prior_header d s) = d \<and>
   sectPrs (snd (Header_header_part d s)) = sectPrs d \<and>
   related_parts (snd (Header_header_part d s)) = related_parts d"
  by (simp add: is_linked_to_previous_def Header_is_linked_to_previous_eq
      BaseHeaderFooter_is_linked_to_previous_def has_definition_def Footer_has_definition_def
      BaseHeaderFooter_has_definition_def Header_has_header_part_eq Header_prior_header_def
      Header_header_part_def header_part_def split: hf_class.split option.split)

text \<open>
  C7. The definition check \<open>_has_definition\<close> is supplied by \<open>_Footer\<close> only. \<open>_Header\<close>
  does not define it and inherits the one of the base class, so on the header of the
  first section of the example document, which has a primary header reference, it raises
  NotImplementedError instead of returning true. The check that \<open>_Header\<close> does define,
  \<open>_has_header_part\<close>, returns true there.
\<close>

theorem C7_Header_has_definition_raises:
  "get_headerReference doc_ABC 0 PRIMARY = Some 1 \<and>
   has_definition HeaderCls doc_ABC 0 = (Inl NotImplementedError, doc_ABC) \<and>
   Header_has_header_part doc_ABC 0 = (Inr True, doc_ABC)"
  by (simp add: has_definition_def BaseHeaderFooter_has_definition_def
      Header_has_header_part_def get_headerReference_def doc_ABC_def)

subsection \<open>The sequence of sections\<close>

text \<open>
  C8. For every index below the number of sections, indexed access gives the section
  that iteration gives at that position, built on the same \<open>w:sectPr\<close> element, and
  iteration gives the sections in the order of the element list.
\<close>

theorem C8_getitem_agrees_with_iter:
  assumes "i < Sections_len d"
  shows "Sections_getitem d (Index (int i)) = Inr (One (Sections_iter d ! i)) \<and>
         sectPr_of (Sections_iter d ! i) = sectPr_lst d ! i \<and>
         map sectPr_of (Sections_iter d) = sectPr_lst d \<and>
         length (Sections_iter d) = Sections_len d"
proof -
  have "map sectPr_of (Sections_iter d) = sectPr_lst d"
    by (simp add: Sections_iter_def comp_def)
  then show ?thesis
    using assms
    by (simp add: Sections_getitem_def list_getitem_def Sections_iter_def Sections_len_def)
qed

theorem C8_getitem_agrees_with_iter_witness:
  "(2::nat) < Sections_len doc_ABC \<and>
   Sections_getitem doc_ABC (Index 2) = Inr (One (Sections_iter doc_ABC ! 2)) \<and>
   sectPr_of (Sections_iter doc_ABC ! 2) = 2"
  using C8_getitem_agrees_with_iter [where d = doc_ABC and i = 2]
  by (simp add: doc_ABC_def Sections_len_def sectPr_lst_def)

text \<open>
  C9. Indexed access with an integer index greater than or equal to the number of
  sections fails with IndexError, which is the result the caller receives.
\<close>

theorem C9_getitem_out_of_range:
  assumes "int (Sections_len d) \<le> k"
  shows "Sections_getitem d (Index k) = Inl IndexError"
  using assms
  by (simp add: Sections_getitem_def list_getitem_def Sections_len_def)

theorem C9_getitem_out_of_range_witness:
  "int (Sections_len doc_ABC) \<le> 3 \<and> Sections_getitem doc_ABC (Index 3) = Inl IndexError"
  using C9_getitem_out_of_range [where d = doc_ABC and k = 3]
  by (simp add: doc_ABC_def Sections_len_def sectPr_lst_def)

end
